theory Spec2Isabelle
  imports Main "HOL-Library.Word"
begin

section \<open>gRPC options: pkg/cloudevents/generic/options/grpc/options.go\<close>

subsection \<open>Data model\<close>

text \<open>
  A Go \<open>error\<close> is represented by its message (\<open>err.Error()\<close>), which is what the
  tests of the package compare.  \<open>time.Duration\<close> is an \<open>int64\<close> count of nanoseconds.
\<close>

type_synonym error = string
type_synonym Duration = "64 word"

definition Second :: Duration where
  "Second = 1000000000"

record KeepAliveOptions =
  Enable :: bool
  Time :: Duration
  Timeout :: Duration
  PermitWithoutStream :: bool

record GRPCOptions =
  URL :: string
  CAFile :: string
  ClientCertFile :: string
  ClientKeyFile :: string
  TokenFile :: string
  KeepAliveOptions :: KeepAliveOptions

text \<open>
  \<open>KeepAliveConfig\<close> and \<open>GRPCConfig\<close> are the structures the config document is
  unmarshalled into.  Their fields carry the prefix \<open>cfg_\<close>; the two pointer fields
  \<open>*time.Duration\<close> are options (\<open>nil\<close> is \<open>None\<close>).
\<close>

record KeepAliveConfig =
  cfg_Enable :: bool
  cfg_Time :: "Duration option"
  cfg_Timeout :: "Duration option"
  cfg_PermitWithoutStream :: bool

record GRPCConfig =
  cfg_URL :: string
  cfg_CAFile :: string
  cfg_ClientCertFile :: string
  cfg_ClientKeyFile :: string
  cfg_TokenFile :: string
  cfg_KeepAliveConfig :: KeepAliveConfig

subsection \<open>BuildGRPCOptionsFromFlags\<close>

text \<open>
  \<open>os.ReadFile\<close> and \<open>yaml.Unmarshal\<close> (into a zero \<open>GRPCConfig\<close>) are the two
  calls into the outside; they are parameters of the model.  Everything after them is the
  source's own chain of early returns.
\<close>

definition BuildGRPCOptionsFromFlags ::
  "(string \<Rightarrow> error + string) \<Rightarrow> (string \<Rightarrow> error + GRPCConfig) \<Rightarrow> string \<Rightarrow> error + GRPCOptions"
where
  "BuildGRPCOptionsFromFlags readFile unmarshal configPath =
    (case readFile configPath of
       Inl err \<Rightarrow> Inl err
     | Inr configData \<Rightarrow>
        (case unmarshal configData of
           Inl err \<Rightarrow> Inl err
         | Inr config \<Rightarrow>
            if cfg_URL config = [] then Inl ''url is required''
            else if (cfg_ClientCertFile config = [] \<and> cfg_ClientKeyFile config \<noteq> []) \<or>
                    (cfg_ClientCertFile config \<noteq> [] \<and> cfg_ClientKeyFile config = [])
              then Inl ''either both or none of clientCertFile and clientKeyFile must be set''
            else if cfg_ClientCertFile config \<noteq> [] \<and> cfg_ClientKeyFile config \<noteq> [] \<and>
                    cfg_CAFile config = []
              then Inl ''setting clientCertFile and clientKeyFile requires caFile''
            else if cfg_TokenFile config \<noteq> [] \<and> cfg_CAFile config = []
              then Inl ''setting tokenFile requires caFile''
            else
              let options = \<lparr> URL = cfg_URL config,
                              CAFile = cfg_CAFile config,
                              ClientCertFile = cfg_ClientCertFile config,
                              ClientKeyFile = cfg_ClientKeyFile config,
                              TokenFile = cfg_TokenFile config,
                              KeepAliveOptions = \<lparr> Enable = False,
                                                   Time = 30 * Second,
                                                   Timeout = 10 * Second,
                                                   PermitWithoutStream = False \<rparr> \<rparr>;
                  options = options \<lparr> KeepAliveOptions :=
                              (KeepAliveOptions options)
                                \<lparr> Enable := cfg_Enable (cfg_KeepAliveConfig config) \<rparr> \<rparr>;
                  options = (case cfg_Time (cfg_KeepAliveConfig config) of
                               None \<Rightarrow> options
                             | Some t \<Rightarrow> options \<lparr> KeepAliveOptions :=
                                          (KeepAliveOptions options) \<lparr> Time := t \<rparr> \<rparr>);
                  options = (case cfg_Timeout (cfg_KeepAliveConfig config) of
                               None \<Rightarrow> options
                             | Some t \<Rightarrow> options \<lparr> KeepAliveOptions :=
                                          (KeepAliveOptions options) \<lparr> Timeout := t \<rparr> \<rparr>);
                  options = options \<lparr> KeepAliveOptions :=
                              (KeepAliveOptions options)
                                \<lparr> PermitWithoutStream :=
                                    cfg_PermitWithoutStream (cfg_KeepAliveConfig config) \<rparr> \<rparr>
              in Inr options))"

subsection \<open>GetGRPCClientConn\<close>

text \<open>
  The TLS protocol version constant \<open>tls.VersionTLS13\<close> is the \<open>uint16\<close> value
  \<open>0x0304\<close>.
\<close>

definition VersionTLS13 :: "16 word" where
  "VersionTLS13 = 0x0304"

record ('cert, 'kp) TLSConfig =
  RootCAs :: "'cert list"
  MinVersion :: "16 word"
  MaxVersion :: "16 word"
  Certificates :: "'kp list"

datatype ('cert, 'kp) TransportCredentials =
    NewTLS "('cert, 'kp) TLSConfig"
  | InsecureCredentials

record ClientParameters =
  kacp_Time :: Duration
  kacp_Timeout :: Duration
  kacp_PermitWithoutStream :: bool

text \<open>
  The per-call credential is the static OAuth token source built from the content of the
  token file; it is represented by that access token.
\<close>

datatype ('cert, 'kp) DialOption =
    WithKeepaliveParams ClientParameters
  | WithTransportCredentials "('cert, 'kp) TransportCredentials"
  | WithPerRPCCredentials string

text \<open>
  The function's calls into the operating system and the libraries.  Each is a field of
  the environment \<open>sys\<close>; every call the function makes is logged, in order, so that what
  is read (and what is not) is part of the result.
\<close>

record ('cert, 'kp, 'conn) sys =
  SystemCertPool :: "error + 'cert list"
  ReadFile :: "string \<Rightarrow> error + string"
  certsFromPEM :: "string \<Rightarrow> 'cert list"
  LoadX509KeyPair :: "string \<Rightarrow> string \<Rightarrow> error + 'kp"
  Dial :: "string \<Rightarrow> ('cert, 'kp) DialOption list \<Rightarrow> error + 'conn"

datatype ('cert, 'kp) call =
    CallSystemCertPool
  | CallReadFile string
  | CallLoadX509KeyPair string string
  | CallDial string "('cert, 'kp) DialOption list"

type_synonym ('cert, 'kp, 'a) io = "('cert, 'kp) call list \<times> (error + 'a)"

definition io_bind ::
  "('cert, 'kp, 'a) io \<Rightarrow> ('a \<Rightarrow> ('cert, 'kp, 'b) io) \<Rightarrow> ('cert, 'kp, 'b) io"
where
  "io_bind m f =
    (case snd m of
       Inl err \<Rightarrow> (fst m, Inl err)
     | Inr x \<Rightarrow> (fst m @ fst (f x), snd (f x)))"

definition io_call :: "('cert, 'kp) call \<Rightarrow> error + 'a \<Rightarrow> ('cert, 'kp, 'a) io" where
  "io_call c r = ([c], r)"

text \<open>
  \<open>CertPool.AppendCertsFromPEM\<close> of crypto/x509 adds the certificates found in the PEM
  data to the pool and reports whether any certificate was found.
\<close>

definition AppendCertsFromPEM ::
  "('cert, 'kp, 'conn) sys \<Rightarrow> 'cert list \<Rightarrow> string \<Rightarrow> 'cert list \<times> bool"
where
  "AppendCertsFromPEM s certPool pem =
     (certPool @ certsFromPEM s pem, certsFromPEM s pem \<noteq> [])"

text \<open>The final \<open>grpc.Dial\<close> with its wrapped error, as both branches have it.\<close>

definition dial_conn ::
  "('cert, 'kp, 'conn) sys \<Rightarrow> string \<Rightarrow> ('cert, 'kp) DialOption list \<Rightarrow> ('cert, 'kp, 'conn) io"
where
  "dial_conn s url dialOpts =
     io_call (CallDial url dialOpts)
       (case Dial s url dialOpts of
          Inl err \<Rightarrow> Inl (''failed to connect to grpc server '' @ url @ '', '' @ err)
        | Inr conn \<Rightarrow> Inr conn)"

definition GetGRPCClientConn ::
  "('cert, 'kp, 'conn) sys \<Rightarrow> GRPCOptions \<Rightarrow> ('cert, 'kp, 'conn) io"
where
  "GetGRPCClientConn s opt =
    (let kacp = \<lparr> kacp_Time = Time (KeepAliveOptions opt),
                  kacp_Timeout = Timeout (KeepAliveOptions opt),
                  kacp_PermitWithoutStream = PermitWithoutStream (KeepAliveOptions opt) \<rparr>;
         dialOpts = (if Enable (KeepAliveOptions opt) then [WithKeepaliveParams kacp] else [])
     in
       if length (CAFile opt) \<noteq> 0 then
         io_bind (io_call CallSystemCertPool (SystemCertPool s)) (\<lambda>certPool.
         io_bind (io_call (CallReadFile (CAFile opt)) (ReadFile s (CAFile opt))) (\<lambda>caPEM.
           let (certPool, ok) = AppendCertsFromPEM s certPool caPEM in
           if \<not> ok then ([], Inl (''invalid CA '' @ CAFile opt))
           else
             let tlsConfig = \<lparr> RootCAs = certPool,
                                MinVersion = VersionTLS13,
                                MaxVersion = VersionTLS13,
                                Certificates = [] \<rparr>
             in
               if length (ClientCertFile opt) \<noteq> 0 \<and> length (ClientKeyFile opt) \<noteq> 0 then
                 io_bind (io_call (CallLoadX509KeyPair (ClientCertFile opt) (ClientKeyFile opt))
                            (LoadX509KeyPair s (ClientCertFile opt) (ClientKeyFile opt)))
                   (\<lambda>clientCerts.
                     let tlsConfig = tlsConfig \<lparr> Certificates := [clientCerts] \<rparr>;
                         dialOpts = dialOpts @ [WithTransportCredentials (NewTLS tlsConfig)]
                     in dial_conn s (URL opt) dialOpts)
               else
                 let dialOpts = dialOpts @ [WithTransportCredentials (NewTLS tlsConfig)] in
                 if length (TokenFile opt) \<noteq> 0 then
                   io_bind (io_call (CallReadFile (TokenFile opt)) (ReadFile s (TokenFile opt)))
                     (\<lambda>token.
                       let dialOpts = dialOpts @ [WithPerRPCCredentials token]
                       in dial_conn s (URL opt) dialOpts)
                 else dial_conn s (URL opt) dialOpts))
       else
         let dialOpts = dialOpts @ [WithTransportCredentials InsecureCredentials]
         in dial_conn s (URL opt) dialOpts)"

subsection \<open>The connection monitor started by GetCloudEventsProtocol\<close>

text \<open>
  \<open>connectivity.State\<close> of grpc and its \<open>String\<close> method, which formats the state
  in the handler's error.
\<close>

datatype State = Idle | Connecting | Ready | TransientFailure | Shutdown

fun State_String :: "State \<Rightarrow> string" where
  "State_String Idle = ''IDLE''"
| "State_String Connecting = ''CONNECTING''"
| "State_String Ready = ''READY''"
| "State_String TransientFailure = ''TRANSIENT_FAILURE''"
| "State_String Shutdown = ''SHUTDOWN''"

text \<open>
  The goroutine is a loop around one \<open>select\<close>.  What the outside decides in each
  iteration is which case fires and, for a tick, the state \<open>conn.GetState()\<close> reports:
  \<open>CtxDone\<close> is the case \<open><-ctx.Done()\<close>, \<open>TickerC st\<close> the case \<open><-ticker.C\<close>
  with the reported state.  What the goroutine does is logged in order.
\<close>

datatype select_case = CtxDone | TickerC State

datatype effect =
    TickerStop
  | ConnClose
  | ConnGetState State
  | ErrorHandler error

text \<open>
  The loop over the cases that fire: \<open>Returned\<close> when the goroutine has executed its
  \<open>return\<close>, \<open>Selecting\<close> when it is back in the \<open>select\<close> once the given cases are
  used up.  Only the failure branch has a \<open>return\<close>.
\<close>

datatype outcome = Returned "effect list" | Selecting "effect list"

fun monitor_loop :: "select_case list \<Rightarrow> effect list \<Rightarrow> outcome" where
  "monitor_loop [] log = Selecting log"
| "monitor_loop (CtxDone # cs) log = monitor_loop cs (log @ [TickerStop, ConnClose])"
| "monitor_loop (TickerC connState # cs) log =
     (if connState = TransientFailure \<or> connState = Idle then
        Returned (log @ [ConnGetState connState,
                         ErrorHandler (''grpc connection is disconnected (state='' @
                                       State_String connState @ '')''),
                         TickerStop, ConnClose])
      else monitor_loop cs (log @ [ConnGetState connState]))"

fun is_ErrorHandler :: "effect \<Rightarrow> bool" where
  "is_ErrorHandler (ErrorHandler e) = True"
| "is_ErrorHandler x = False"

fun prepend :: "effect list \<Rightarrow> outcome \<Rightarrow> outcome" where
  "prepend l (Returned log) = Returned (l @ log)"
| "prepend l (Selecting log) = Selecting (l @ log)"

section \<open>The manifest-bundle codec\<close>

text \<open>
  The codec and the event types it works on are not among the sources; only the codec's
  test is.  This section models them from the specification (sections 3, 4.1, 4.2 and 6),
  with the constants the test uses.
\<close>

text \<open>
  Modelled from the spec: the data type of an event (group, version, resource), part of
  the event type of section 4.1 whose source file is not present.
\<close>

record CloudEventsDataType =
  Group :: string
  Version :: string
  Resource :: string

text \<open>
  Modelled from the spec: the event type of section 4.1 (data type, sub-resource,
  action), whose source file is not present.
\<close>

record CloudEventsType =
  CloudEventsDataType :: CloudEventsDataType
  SubResource :: string
  Action :: string

text \<open>
  Modelled from the spec: the sub-resource segment of a spec event, as in the type
  strings of the codec test; the constant's source file is not present.
\<close>

definition SubResourceSpec :: string where
  "SubResourceSpec = ''spec''"

text \<open>
  Modelled from the spec: the fixed literal \<open>status\<close> of the sub-resource segment of a
  status event; the constant's source file is not present.
\<close>

definition SubResourceStatus :: string where
  "SubResourceStatus = ''status''"

text \<open>
  Modelled from the spec: the data type the codec is registered for, whose source file is
  not present.  Its three parts are read off the type string
  \<open>io.open-cluster-management.works.v1alpha1.manifestbundles.spec.test\<close> that the
  codec test expects to pass the data-type check, by the canonical form of section 6.
\<close>

definition ManifestBundleEventDataType :: CloudEventsDataType where
  "ManifestBundleEventDataType =
     \<lparr> Group = ''io.open-cluster-management.works'',
       Version = ''v1alpha1'',
       Resource = ''manifestbundles'' \<rparr>"

text \<open>
  Modelled from the spec: the label that names the original source of a resource; the key
  is the one the codec test sets.
\<close>

definition OriginalSourceLabelKey :: string where
  "OriginalSourceLabelKey = ''cloudevents.open-cluster-management.io/originalsource''"

text \<open>
  Modelled from the spec: the canonical type string
  \<open><group>.<version>.<resource>.<subresource>.<action>\<close> of section 6.
\<close>

definition formatType :: "CloudEventsType \<Rightarrow> string" where
  "formatType t =
     Group (CloudEventsDataType t) @ ''.'' @ Version (CloudEventsDataType t) @ ''.'' @
     Resource (CloudEventsDataType t) @ ''.'' @ SubResource t @ ''.'' @ Action t"

text \<open>
  Modelled from the spec: the envelope of section 3 (identifier, source, type string,
  extension attributes and payload), whose type is not among the sources.  Attribute
  values are held in their string form.
\<close>

record 'd Envelope =
  env_id :: string
  env_source :: string
  env_type :: string
  env_attributes :: "string \<rightharpoonup> string"
  env_data :: 'd

text \<open>
  Modelled from the spec: the resource the codec maps from and to, whose type is not
  among the sources: its stable identifier, version identifier, target cluster, labels,
  deletion timestamp (in its string form), manifests and status.
\<close>

record ('m, 's) Resource =
  res_ID :: string
  res_Version :: string
  res_Cluster :: string
  res_Labels :: "string \<rightharpoonup> string"
  res_DeletionTimestamp :: "string option"
  res_Manifests :: 'm
  res_Status :: 's

text \<open>
  Modelled from the spec: the structured payload of an encoded envelope, the manifest
  bundle for a spec event and the status for a status event.
\<close>

datatype ('m, 's) Payload = ManifestsPayload 'm | StatusPayload 's

text \<open>
  Modelled from the spec: the characters of a string-encoded non-negative integer.
\<close>

definition is_digit :: "char \<Rightarrow> bool" where
  "is_digit c = (c \<in> set ''0123456789'')"

text \<open>
  Modelled from the spec: parsing a version identifier as a non-negative integer; it
  parses when it is a non-empty string of decimal digits.
\<close>

definition parseNonNegativeInteger :: "string \<Rightarrow> nat option" where
  "parseNonNegativeInteger s =
     (if s = [] \<or> \<not> list_all is_digit s then None
      else Some (foldl (\<lambda>a c. 10 * a + (of_char c - 48)) 0 s))"

text \<open>
  Modelled from the spec: the parsed version written back in decimal (the
  \<open>resourceversion\<close> attribute is a string-encoded non-negative integer); the index
  into the ten digits is always below ten.
\<close>

definition digit_char :: "nat \<Rightarrow> char" where
  "digit_char d = ''0123456789'' ! d"

function formatNonNegativeInteger :: "nat \<Rightarrow> string" where
  "formatNonNegativeInteger v =
     (if v div 10 = 0 then [digit_char (v mod 10)]
      else formatNonNegativeInteger (v div 10) @ [digit_char (v mod 10)])"
  by pat_completeness auto
termination
  by (relation "measure (\<lambda>v. v)") auto

declare formatNonNegativeInteger.simps [simp del]

text \<open>
  Modelled from the spec: the three reasons for which \<open>Encode\<close> fails (section 4.2).
\<close>

datatype EncodeError = EncodeUnsupportedDataType | BadResourceVersion | NoOriginalSource

text \<open>
  Modelled from the spec: \<open>Encode\<close> of the manifest-bundle codec (section 4.2), whose
  implementation is not present (only its test is).  The three failures are checked in the
  order the spec lists them; the identifier of the new envelope is the parameter
  \<open>newID\<close>.
\<close>

definition Encode ::
  "string \<Rightarrow> string \<Rightarrow> CloudEventsType \<Rightarrow> ('m, 's) Resource \<Rightarrow>
     EncodeError + ('m, 's) Payload Envelope"
where
  "Encode newID sourceID eventType resource =
    (if CloudEventsDataType eventType \<noteq> ManifestBundleEventDataType
       then Inl EncodeUnsupportedDataType
     else
       (case parseNonNegativeInteger (res_Version resource) of
         None \<Rightarrow> Inl BadResourceVersion
       | Some resourceVersion \<Rightarrow>
          if SubResource eventType = SubResourceStatus \<and>
             res_Labels resource OriginalSourceLabelKey = None
            then Inl NoOriginalSource
          else
            let attrs = [''resourceid'' \<mapsto> res_ID resource,
                         ''resourceversion'' \<mapsto> formatNonNegativeInteger resourceVersion,
                         ''clustername'' \<mapsto> res_Cluster resource];
                attrs = (case res_DeletionTimestamp resource of
                           None \<Rightarrow> attrs
                         | Some ts \<Rightarrow> attrs(''deletiontimestamp'' \<mapsto> ts))
            in Inr \<lparr> env_id = newID,
                     env_source = sourceID,
                     env_type = formatType eventType,
                     env_attributes = attrs,
                     env_data = (if SubResource eventType = SubResourceStatus
                                 then StatusPayload (res_Status resource)
                                 else ManifestsPayload (res_Manifests resource)) \<rparr>))"

text \<open>
  Modelled from the spec: the reasons for which \<open>Decode\<close> fails (section 4.2), one
  error per reason.
\<close>

datatype DecodeError =
    BadEventType
  | DecodeUnsupportedDataType
  | NoResourceID
  | NoResourceVersion
  | NoClusterName
  | BadPayload

text \<open>
  Modelled from the spec: \<open>Decode\<close> of the manifest-bundle codec (section 4.2), whose
  implementation is not present (only its test is).  Parsing of the type string, the
  timestamp check and the deserialisation of the payload are parameters.  The failures are
  checked in the spec's order.  On success the action and the resource are returned; the
  resource carries the three required attributes, the original-source label when the
  \<open>originalsource\<close> attribute is present, and the deletion timestamp when the
  \<open>deletiontimestamp\<close> attribute is present and is a timestamp.
\<close>

definition Decode ::
  "(string \<Rightarrow> CloudEventsType option) \<Rightarrow> (string \<Rightarrow> bool) \<Rightarrow> ('d \<Rightarrow> ('m \<times> 's) option) \<Rightarrow>
     'd Envelope \<Rightarrow> DecodeError + (string \<times> ('m, 's) Resource)"
where
  "Decode parseType isTimestamp deserialize envelope =
    (case parseType (env_type envelope) of
       None \<Rightarrow> Inl BadEventType
     | Some eventType \<Rightarrow>
        if CloudEventsDataType eventType \<noteq> ManifestBundleEventDataType
          then Inl DecodeUnsupportedDataType
        else
          (case env_attributes envelope ''resourceid'' of
            None \<Rightarrow> Inl NoResourceID
          | Some resourceID \<Rightarrow>
             (case env_attributes envelope ''resourceversion'' of
                None \<Rightarrow> Inl NoResourceVersion
              | Some resourceVersion \<Rightarrow>
                 (case env_attributes envelope ''clustername'' of
                    None \<Rightarrow> Inl NoClusterName
                  | Some clusterName \<Rightarrow>
                     (case deserialize (env_data envelope) of
                        None \<Rightarrow> Inl BadPayload
                      | Some (manifests, status) \<Rightarrow>
                         Inr (Action eventType,
                              \<lparr> res_ID = resourceID,
                                res_Version = resourceVersion,
                                res_Cluster = clusterName,
                                res_Labels =
                                  (case env_attributes envelope ''originalsource'' of
                                     None \<Rightarrow> Map.empty
                                   | Some src \<Rightarrow> [OriginalSourceLabelKey \<mapsto> src]),
                                res_DeletionTimestamp =
                                  (case env_attributes envelope ''deletiontimestamp'' of
                                     None \<Rightarrow> None
                                   | Some ts \<Rightarrow> if isTimestamp ts then Some ts else None),
                                res_Manifests = manifests,
                                res_Status = status \<rparr>))))))"

section \<open>Auxiliary definitions\<close>

text \<open>The dial options that precede the transport credentials in both branches.\<close>

definition keepaliveDialOpts :: "GRPCOptions \<Rightarrow> ('cert, 'kp) DialOption list" where
  "keepaliveDialOpts opt =
     (if Enable (KeepAliveOptions opt)
      then [WithKeepaliveParams
              \<lparr> kacp_Time = Time (KeepAliveOptions opt),
                kacp_Timeout = Timeout (KeepAliveOptions opt),
                kacp_PermitWithoutStream = PermitWithoutStream (KeepAliveOptions opt) \<rparr>]
      else [])"

fun is_CallReadFile :: "('cert, 'kp) call \<Rightarrow> bool" where
  "is_CallReadFile (CallReadFile p) = True"
| "is_CallReadFile c = False"

subsection \<open>Concrete inputs\<close>

text \<open>The zero value of \<open>GRPCConfig\<close>, into which a document is unmarshalled.\<close>

definition zeroConfig :: GRPCConfig where
  "zeroConfig =
     \<lparr> cfg_URL = [], cfg_CAFile = [], cfg_ClientCertFile = [], cfg_ClientKeyFile = [],
       cfg_TokenFile = [],
       cfg_KeepAliveConfig = \<lparr> cfg_Enable = False, cfg_Time = None, cfg_Timeout = None,
                              cfg_PermitWithoutStream = False \<rparr> \<rparr>"

text \<open>
  A small system: one system root, a CA file holding one certificate, a token file, a
  key pair loader and a dialer that always succeed.
\<close>

definition exampleSys :: "(string, string \<times> string, nat) sys" where
  "exampleSys =
     \<lparr> SystemCertPool = Inr [''system-root''],
       ReadFile = (\<lambda>p. if p = ''ca.crt'' then Inr ''CA-PEM''
                        else if p = ''token'' then Inr ''secret''
                        else Inl ''no such file''),
       certsFromPEM = (\<lambda>pem. if pem = ''CA-PEM'' then [''hub-ca''] else []),
       LoadX509KeyPair = (\<lambda>c k. Inr (c, k)),
       Dial = (\<lambda>url opts. Inr 1) \<rparr>"

definition exampleOptions :: GRPCOptions where
  "exampleOptions =
     \<lparr> URL = ''hub:8090'', CAFile = [], ClientCertFile = [], ClientKeyFile = [],
       TokenFile = [],
       KeepAliveOptions = \<lparr> Enable = False, Time = 30 * Second, Timeout = 10 * Second,
                            PermitWithoutStream = False \<rparr> \<rparr>"

text \<open>The type strings and the results of parsing them that the codec test relies on.\<close>

definition exampleParseType :: "string \<Rightarrow> CloudEventsType option" where
  "exampleParseType s =
     (if s = ''io.open-cluster-management.works.v1alpha1.manifestbundles.spec.test''
        then Some \<lparr> CloudEventsDataType = ManifestBundleEventDataType,
                    SubResource = SubResourceSpec, Action = ''test'' \<rparr>
      else if s = ''test-group.v1.test.spec.test''
        then Some \<lparr> CloudEventsDataType =
                      \<lparr> Group = ''test-group'', Version = ''v1'', Resource = ''test'' \<rparr>,
                    SubResource = SubResourceSpec, Action = ''test'' \<rparr>
      else None)"

definition exampleEnvelope :: "string \<Rightarrow> (string \<times> string) list \<Rightarrow> string Envelope" where
  "exampleEnvelope t exts =
     \<lparr> env_id = ''1'', env_source = ''source1'', env_type = t,
       env_attributes = map_of exts, env_data = [] \<rparr>"

definition exampleDeserialize :: "string \<Rightarrow> (string \<times> unit) option" where
  "exampleDeserialize d = (if d = [] then None else Some (d, ()))"

definition exampleResource :: "(unit, unit) Resource" where
  "exampleResource =
     \<lparr> res_ID = ''test'', res_Version = ''13'', res_Cluster = ''cluster1'',
       res_Labels = Map.empty, res_DeletionTimestamp = None,
       res_Manifests = (), res_Status = () \<rparr>"

definition exampleStatusType :: CloudEventsType where
  "exampleStatusType =
     \<lparr> CloudEventsDataType = ManifestBundleEventDataType,
       SubResource = SubResourceStatus, Action = ''test'' \<rparr>"

section \<open>Configuration building\<close>

text \<open>
  C3.  For a config document that is read and unmarshalled, the checks of
  \<open>BuildGRPCOptionsFromFlags\<close> are applied in the order URL presence, client
  certificate and key pairing, certificate and key require the CA file, token requires the
  CA file.  The first rule that is violated gives the returned error, whatever the later
  rules would say; when no rule is violated, options are returned.
\<close>

theorem BuildGRPCOptionsFromFlags_validation_order:
  assumes "readFile configPath = Inr configData"
    and "unmarshal configData = Inr config"
  shows
    "(cfg_URL config = [] \<longrightarrow>
        BuildGRPCOptionsFromFlags readFile unmarshal configPath = Inl ''url is required'') \<and>
     (cfg_URL config \<noteq> [] \<and>
      ((cfg_ClientCertFile config = [] \<and> cfg_ClientKeyFile config \<noteq> []) \<or>
       (cfg_ClientCertFile config \<noteq> [] \<and> cfg_ClientKeyFile config = [])) \<longrightarrow>
        BuildGRPCOptionsFromFlags readFile unmarshal configPath =
          Inl ''either both or none of clientCertFile and clientKeyFile must be set'') \<and>
     (cfg_URL config \<noteq> [] \<and> cfg_ClientCertFile config \<noteq> [] \<and>
      cfg_ClientKeyFile config \<noteq> [] \<and> cfg_CAFile config = [] \<longrightarrow>
        BuildGRPCOptionsFromFlags readFile unmarshal configPath =
          Inl ''setting clientCertFile and clientKeyFile requires caFile'') \<and>
     (cfg_URL config \<noteq> [] \<and> cfg_ClientCertFile config = [] \<and>
      cfg_ClientKeyFile config = [] \<and> cfg_TokenFile config \<noteq> [] \<and> cfg_CAFile config = [] \<longrightarrow>
        BuildGRPCOptionsFromFlags readFile unmarshal configPath =
          Inl ''setting tokenFile requires caFile'') \<and>
     (cfg_URL config \<noteq> [] \<and>
      (cfg_ClientCertFile config = [] \<longleftrightarrow> cfg_ClientKeyFile config = []) \<and>
      (cfg_CAFile config = [] \<longrightarrow> cfg_ClientCertFile config = [] \<and> cfg_TokenFile config = []) \<longrightarrow>
        (\<exists>options. BuildGRPCOptionsFromFlags readFile unmarshal configPath = Inr options))"
  using assms by (simp add: BuildGRPCOptionsFromFlags_def Let_def)

text \<open>
  Five documents, one per outcome; each of the first three violates later rules as well
  and still reports the earliest one.
\<close>

theorem BuildGRPCOptionsFromFlags_validation_order_witness:
  "BuildGRPCOptionsFromFlags (\<lambda>p. Inr ''doc'')
      (\<lambda>d. Inr (zeroConfig \<lparr> cfg_ClientCertFile := ''c'', cfg_TokenFile := ''t'' \<rparr>)) ''path'' =
     Inl ''url is required'' \<and>
   BuildGRPCOptionsFromFlags (\<lambda>p. Inr ''doc'')
      (\<lambda>d. Inr (zeroConfig \<lparr> cfg_URL := ''test'', cfg_ClientCertFile := ''c'',
                              cfg_TokenFile := ''t'' \<rparr>)) ''path'' =
     Inl ''either both or none of clientCertFile and clientKeyFile must be set'' \<and>
   BuildGRPCOptionsFromFlags (\<lambda>p. Inr ''doc'')
      (\<lambda>d. Inr (zeroConfig \<lparr> cfg_URL := ''test'', cfg_ClientCertFile := ''c'',
                              cfg_ClientKeyFile := ''k'', cfg_TokenFile := ''t'' \<rparr>)) ''path'' =
     Inl ''setting clientCertFile and clientKeyFile requires caFile'' \<and>
   BuildGRPCOptionsFromFlags (\<lambda>p. Inr ''doc'')
      (\<lambda>d. Inr (zeroConfig \<lparr> cfg_URL := ''test'', cfg_TokenFile := ''t'' \<rparr>)) ''path'' =
     Inl ''setting tokenFile requires caFile'' \<and>
   (\<exists>options. BuildGRPCOptionsFromFlags (\<lambda>p. Inr ''doc'')
      (\<lambda>d. Inr (zeroConfig \<lparr> cfg_URL := ''test'', cfg_CAFile := ''ca'',
                              cfg_TokenFile := ''t'' \<rparr>)) ''path'' =
     Inr options)"
  using
    BuildGRPCOptionsFromFlags_validation_order[of "\<lambda>p. Inr ''doc''" "''path''" "''doc''"
      "\<lambda>d. Inr (zeroConfig \<lparr> cfg_ClientCertFile := ''c'', cfg_TokenFile := ''t'' \<rparr>)"
      "zeroConfig \<lparr> cfg_ClientCertFile := ''c'', cfg_TokenFile := ''t'' \<rparr>"]
    BuildGRPCOptionsFromFlags_validation_order[of "\<lambda>p. Inr ''doc''" "''path''" "''doc''"
      "\<lambda>d. Inr (zeroConfig \<lparr> cfg_URL := ''test'', cfg_ClientCertFile := ''c'',
                              cfg_TokenFile := ''t'' \<rparr>)"
      "zeroConfig \<lparr> cfg_URL := ''test'', cfg_ClientCertFile := ''c'', cfg_TokenFile := ''t'' \<rparr>"]
    BuildGRPCOptionsFromFlags_validation_order[of "\<lambda>p. Inr ''doc''" "''path''" "''doc''"
      "\<lambda>d. Inr (zeroConfig \<lparr> cfg_URL := ''test'', cfg_ClientCertFile := ''c'',
                              cfg_ClientKeyFile := ''k'', cfg_TokenFile := ''t'' \<rparr>)"
      "zeroConfig \<lparr> cfg_URL := ''test'', cfg_ClientCertFile := ''c'',
                    cfg_ClientKeyFile := ''k'', cfg_TokenFile := ''t'' \<rparr>"]
    BuildGRPCOptionsFromFlags_validation_order[of "\<lambda>p. Inr ''doc''" "''path''" "''doc''"
      "\<lambda>d. Inr (zeroConfig \<lparr> cfg_URL := ''test'', cfg_TokenFile := ''t'' \<rparr>)"
      "zeroConfig \<lparr> cfg_URL := ''test'', cfg_TokenFile := ''t'' \<rparr>"]
    BuildGRPCOptionsFromFlags_validation_order[of "\<lambda>p. Inr ''doc''" "''path''" "''doc''"
      "\<lambda>d. Inr (zeroConfig \<lparr> cfg_URL := ''test'', cfg_CAFile := ''ca'',
                              cfg_TokenFile := ''t'' \<rparr>)"
      "zeroConfig \<lparr> cfg_URL := ''test'', cfg_CAFile := ''ca'', cfg_TokenFile := ''t'' \<rparr>"]
  by (simp add: zeroConfig_def)



section \<open>Connection set-up\<close>

text \<open>
  C7.  With an empty \<open>caFile\<close>, \<open>GetGRPCClientConn\<close> makes exactly one call to the
  outside, the dial, with the keep-alive option (when enabled) followed by insecure
  transport credentials; nothing is read from the client certificate, client key or token
  paths, whatever they are set to.  The result is the connection, or the dial error
  wrapped.
\<close>

theorem GetGRPCClientConn_insecure:
  assumes "CAFile opt = []"
  shows "fst (GetGRPCClientConn s opt) =
           [CallDial (URL opt)
              (keepaliveDialOpts opt @ [WithTransportCredentials InsecureCredentials])] \<and>
         snd (GetGRPCClientConn s opt) =
           (case Dial s (URL opt)
                   (keepaliveDialOpts opt @ [WithTransportCredentials InsecureCredentials]) of
              Inl err \<Rightarrow> Inl (''failed to connect to grpc server '' @ URL opt @ '', '' @ err)
            | Inr conn \<Rightarrow> Inr conn)"
  using assms
  by (simp add: GetGRPCClientConn_def keepaliveDialOpts_def dial_conn_def io_call_def Let_def)

theorem GetGRPCClientConn_insecure_witness:
  "GetGRPCClientConn exampleSys
     (exampleOptions \<lparr> ClientCertFile := ''tls.crt'', ClientKeyFile := ''tls.key'',
                       TokenFile := ''token'' \<rparr>) =
     ([CallDial ''hub:8090'' [WithTransportCredentials InsecureCredentials]], Inr 1)"
  using GetGRPCClientConn_insecure[of
      "exampleOptions \<lparr> ClientCertFile := ''tls.crt'', ClientKeyFile := ''tls.key'',
                        TokenFile := ''token'' \<rparr>" exampleSys]
  by (simp add: exampleOptions_def exampleSys_def keepaliveDialOpts_def prod_eq_iff)

text \<open>
  C8.  With a \<open>caFile\<close>, every dial \<open>GetGRPCClientConn\<close> makes carries one transport
  credential, a TLS configuration whose root pool is the system pool followed by the
  certificates of the CA file (of which there is at least one), and whose minimum and
  maximum protocol versions are both TLS 1.3 (first part).  And the dial is made: when
  the system pool loads and the CA file is read and holds a certificate, the function
  makes exactly the calls listed and ends with a dial that carries this TLS
  configuration, in each of the three branches: client certificate and key (once the key
  pair loads), token (once the token file is read), and server-only TLS.  Its result is
  the connection the dial returns, or the dial's error wrapped.
\<close>

theorem GetGRPCClientConn_tls_config:
  assumes "CAFile opt \<noteq> []"
  shows
    "(\<forall>url dialOpts. CallDial url dialOpts \<in> set (fst (GetGRPCClientConn s opt)) \<longrightarrow>
        (\<exists>certPool caPEM tlsConfig.
           SystemCertPool s = Inr certPool \<and>
           ReadFile s (CAFile opt) = Inr caPEM \<and>
           certsFromPEM s caPEM \<noteq> [] \<and>
           WithTransportCredentials (NewTLS tlsConfig) \<in> set dialOpts \<and>
           (\<forall>c. WithTransportCredentials c \<in> set dialOpts \<longrightarrow> c = NewTLS tlsConfig) \<and>
           RootCAs tlsConfig = certPool @ certsFromPEM s caPEM \<and>
           MinVersion tlsConfig = VersionTLS13 \<and>
           MaxVersion tlsConfig = VersionTLS13)) \<and>
     (\<forall>certPool caPEM.
        SystemCertPool s = Inr certPool \<and> ReadFile s (CAFile opt) = Inr caPEM \<and>
        certsFromPEM s caPEM \<noteq> [] \<longrightarrow>
        (ClientCertFile opt \<noteq> [] \<and> ClientKeyFile opt \<noteq> [] \<longrightarrow>
           (\<forall>clientCerts.
              LoadX509KeyPair s (ClientCertFile opt) (ClientKeyFile opt) = Inr clientCerts \<longrightarrow>
              GetGRPCClientConn s opt =
                ([CallSystemCertPool, CallReadFile (CAFile opt),
                  CallLoadX509KeyPair (ClientCertFile opt) (ClientKeyFile opt),
                  CallDial (URL opt)
                    (keepaliveDialOpts opt @
                     [WithTransportCredentials
                        (NewTLS \<lparr> RootCAs = certPool @ certsFromPEM s caPEM,
                                  MinVersion = VersionTLS13, MaxVersion = VersionTLS13,
                                  Certificates = [clientCerts] \<rparr>)])],
                 case Dial s (URL opt)
                        (keepaliveDialOpts opt @
                         [WithTransportCredentials
                            (NewTLS \<lparr> RootCAs = certPool @ certsFromPEM s caPEM,
                                      MinVersion = VersionTLS13, MaxVersion = VersionTLS13,
                                      Certificates = [clientCerts] \<rparr>)]) of
                   Inl err \<Rightarrow>
                     Inl (''failed to connect to grpc server '' @ URL opt @ '', '' @ err)
                 | Inr conn \<Rightarrow> Inr conn))) \<and>
        (\<not> (ClientCertFile opt \<noteq> [] \<and> ClientKeyFile opt \<noteq> []) \<and> TokenFile opt \<noteq> [] \<longrightarrow>
           (\<forall>token.
              ReadFile s (TokenFile opt) = Inr token \<longrightarrow>
              GetGRPCClientConn s opt =
                ([CallSystemCertPool, CallReadFile (CAFile opt), CallReadFile (TokenFile opt),
                  CallDial (URL opt)
                    (keepaliveDialOpts opt @
                     [WithTransportCredentials
                        (NewTLS \<lparr> RootCAs = certPool @ certsFromPEM s caPEM,
                                  MinVersion = VersionTLS13, MaxVersion = VersionTLS13,
                                  Certificates = [] \<rparr>),
                      WithPerRPCCredentials token])],
                 case Dial s (URL opt)
                        (keepaliveDialOpts opt @
                         [WithTransportCredentials
                            (NewTLS \<lparr> RootCAs = certPool @ certsFromPEM s caPEM,
                                      MinVersion = VersionTLS13, MaxVersion = VersionTLS13,
                                      Certificates = [] \<rparr>),
                          WithPerRPCCredentials token]) of
                   Inl err \<Rightarrow>
                     Inl (''failed to connect to grpc server '' @ URL opt @ '', '' @ err)
                 | Inr conn \<Rightarrow> Inr conn))) \<and>
        (\<not> (ClientCertFile opt \<noteq> [] \<and> ClientKeyFile opt \<noteq> []) \<and> TokenFile opt = [] \<longrightarrow>
           GetGRPCClientConn s opt =
             ([CallSystemCertPool, CallReadFile (CAFile opt),
               CallDial (URL opt)
                 (keepaliveDialOpts opt @
                  [WithTransportCredentials
                     (NewTLS \<lparr> RootCAs = certPool @ certsFromPEM s caPEM,
                               MinVersion = VersionTLS13, MaxVersion = VersionTLS13,
                               Certificates = [] \<rparr>)])],
              case Dial s (URL opt)
                     (keepaliveDialOpts opt @
                      [WithTransportCredentials
                         (NewTLS \<lparr> RootCAs = certPool @ certsFromPEM s caPEM,
                                   MinVersion = VersionTLS13, MaxVersion = VersionTLS13,
                                   Certificates = [] \<rparr>)]) of
                Inl err \<Rightarrow>
                  Inl (''failed to connect to grpc server '' @ URL opt @ '', '' @ err)
              | Inr conn \<Rightarrow> Inr conn)))"
proof (intro conjI allI impI)
  fix url dialOpts
  assume "CallDial url dialOpts \<in> set (fst (GetGRPCClientConn s opt))"
  with assms show "\<exists>certPool caPEM tlsConfig.
           SystemCertPool s = Inr certPool \<and>
           ReadFile s (CAFile opt) = Inr caPEM \<and>
           certsFromPEM s caPEM \<noteq> [] \<and>
           WithTransportCredentials (NewTLS tlsConfig) \<in> set dialOpts \<and>
           (\<forall>c. WithTransportCredentials c \<in> set dialOpts \<longrightarrow> c = NewTLS tlsConfig) \<and>
           RootCAs tlsConfig = certPool @ certsFromPEM s caPEM \<and>
           MinVersion tlsConfig = VersionTLS13 \<and>
           MaxVersion tlsConfig = VersionTLS13"
    by (auto simp: GetGRPCClientConn_def dial_conn_def io_call_def io_bind_def Let_def
          AppendCertsFromPEM_def split: sum.splits if_splits)
qed (use assms in \<open>auto simp: GetGRPCClientConn_def dial_conn_def io_call_def io_bind_def
       Let_def AppendCertsFromPEM_def keepaliveDialOpts_def split: sum.splits\<close>)

text \<open>
  The three branches on the example system: server-only TLS, token over TLS and mutual
  TLS.  Each ends with a dial whose TLS configuration holds the system root and the CA of
  the file and pins version \<open>0x0304\<close>; the dial of the token branch is then an instance
  of the first part.
\<close>

theorem GetGRPCClientConn_tls_config_witness:
  "GetGRPCClientConn exampleSys (exampleOptions \<lparr> CAFile := ''ca.crt'' \<rparr>) =
     ([CallSystemCertPool, CallReadFile ''ca.crt'',
       CallDial ''hub:8090''
         [WithTransportCredentials
            (NewTLS \<lparr> RootCAs = [''system-root'', ''hub-ca''], MinVersion = 0x0304,
                      MaxVersion = 0x0304, Certificates = [] \<rparr>)]],
      Inr 1) \<and>
   GetGRPCClientConn exampleSys
     (exampleOptions \<lparr> CAFile := ''ca.crt'', TokenFile := ''token'' \<rparr>) =
     ([CallSystemCertPool, CallReadFile ''ca.crt'', CallReadFile ''token'',
       CallDial ''hub:8090''
         [WithTransportCredentials
            (NewTLS \<lparr> RootCAs = [''system-root'', ''hub-ca''], MinVersion = 0x0304,
                      MaxVersion = 0x0304, Certificates = [] \<rparr>),
          WithPerRPCCredentials ''secret'']],
      Inr 1) \<and>
   GetGRPCClientConn exampleSys
     (exampleOptions \<lparr> CAFile := ''ca.crt'', ClientCertFile := ''tls.crt'',
                       ClientKeyFile := ''tls.key'' \<rparr>) =
     ([CallSystemCertPool, CallReadFile ''ca.crt'',
       CallLoadX509KeyPair ''tls.crt'' ''tls.key'',
       CallDial ''hub:8090''
         [WithTransportCredentials
            (NewTLS \<lparr> RootCAs = [''system-root'', ''hub-ca''], MinVersion = 0x0304,
                      MaxVersion = 0x0304, Certificates = [(''tls.crt'', ''tls.key'')] \<rparr>)]],
      Inr 1) \<and>
   (\<exists>certPool caPEM tlsConfig.
      SystemCertPool exampleSys = Inr certPool \<and>
      ReadFile exampleSys
        (CAFile (exampleOptions \<lparr> CAFile := ''ca.crt'', TokenFile := ''token'' \<rparr>)) =
        Inr caPEM \<and>
      certsFromPEM exampleSys caPEM \<noteq> [] \<and>
      WithTransportCredentials (NewTLS (tlsConfig :: (string, string \<times> string) TLSConfig)) \<in>
        set [WithTransportCredentials
               (NewTLS \<lparr> RootCAs = [''system-root'', ''hub-ca''], MinVersion = 0x0304,
                         MaxVersion = 0x0304, Certificates = [] \<rparr>),
             WithPerRPCCredentials ''secret''] \<and>
      (\<forall>c. WithTransportCredentials c \<in>
             set [WithTransportCredentials
                    (NewTLS \<lparr> RootCAs = [''system-root'', ''hub-ca''], MinVersion = 0x0304,
                              MaxVersion = 0x0304, Certificates = [] \<rparr>),
                  WithPerRPCCredentials ''secret''] \<longrightarrow>
           c = NewTLS tlsConfig) \<and>
      RootCAs tlsConfig = certPool @ certsFromPEM exampleSys caPEM \<and>
      MinVersion tlsConfig = VersionTLS13 \<and>
      MaxVersion tlsConfig = VersionTLS13)"
proof -
  let ?server = "exampleOptions \<lparr> CAFile := ''ca.crt'' \<rparr>"
  let ?token = "exampleOptions \<lparr> CAFile := ''ca.crt'', TokenFile := ''token'' \<rparr>"
  let ?mtls = "exampleOptions \<lparr> CAFile := ''ca.crt'', ClientCertFile := ''tls.crt'',
                                ClientKeyFile := ''tls.key'' \<rparr>"
  let ?tokenOpts = "[WithTransportCredentials
        (NewTLS \<lparr> RootCAs = [''system-root'', ''hub-ca''], MinVersion = 0x0304,
                  MaxVersion = 0x0304, Certificates = [] :: (string \<times> string) list \<rparr>),
      WithPerRPCCredentials ''secret'']"
  have ca: "CAFile ?server \<noteq> []" "CAFile ?token \<noteq> []" "CAFile ?mtls \<noteq> []"
    by (simp_all add: exampleOptions_def)
  have server: "GetGRPCClientConn exampleSys ?server =
     ([CallSystemCertPool, CallReadFile ''ca.crt'',
       CallDial ''hub:8090''
         [WithTransportCredentials
            (NewTLS \<lparr> RootCAs = [''system-root'', ''hub-ca''], MinVersion = 0x0304,
                      MaxVersion = 0x0304, Certificates = [] \<rparr>)]],
      Inr 1)"
    using GetGRPCClientConn_tls_config[OF ca(1), of exampleSys, THEN conjunct2]
    by (simp add: exampleOptions_def exampleSys_def keepaliveDialOpts_def VersionTLS13_def)
  have token: "GetGRPCClientConn exampleSys ?token =
     ([CallSystemCertPool, CallReadFile ''ca.crt'', CallReadFile ''token'',
       CallDial ''hub:8090'' ?tokenOpts],
      Inr 1)"
    using GetGRPCClientConn_tls_config[OF ca(2), of exampleSys, THEN conjunct2]
    by (simp add: exampleOptions_def exampleSys_def keepaliveDialOpts_def VersionTLS13_def)
  have mtls: "GetGRPCClientConn exampleSys ?mtls =
     ([CallSystemCertPool, CallReadFile ''ca.crt'',
       CallLoadX509KeyPair ''tls.crt'' ''tls.key'',
       CallDial ''hub:8090''
         [WithTransportCredentials
            (NewTLS \<lparr> RootCAs = [''system-root'', ''hub-ca''], MinVersion = 0x0304,
                      MaxVersion = 0x0304, Certificates = [(''tls.crt'', ''tls.key'')] \<rparr>)]],
      Inr 1)"
    using GetGRPCClientConn_tls_config[OF ca(3), of exampleSys, THEN conjunct2]
    by (simp add: exampleOptions_def exampleSys_def keepaliveDialOpts_def VersionTLS13_def)
  have dial: "CallDial ''hub:8090'' ?tokenOpts \<in> set (fst (GetGRPCClientConn exampleSys ?token))"
    by (simp add: token)
  from GetGRPCClientConn_tls_config[OF ca(2), of exampleSys, THEN conjunct1, rule_format, OF dial]
  have every: "\<exists>certPool caPEM tlsConfig.
      SystemCertPool exampleSys = Inr certPool \<and>
      ReadFile exampleSys (CAFile ?token) = Inr caPEM \<and>
      certsFromPEM exampleSys caPEM \<noteq> [] \<and>
      WithTransportCredentials (NewTLS tlsConfig) \<in> set ?tokenOpts \<and>
      (\<forall>c. WithTransportCredentials c \<in> set ?tokenOpts \<longrightarrow> c = NewTLS tlsConfig) \<and>
      RootCAs tlsConfig = certPool @ certsFromPEM exampleSys caPEM \<and>
      MinVersion tlsConfig = VersionTLS13 \<and>
      MaxVersion tlsConfig = VersionTLS13" .
  show ?thesis
    by (rule conjI[OF server conjI[OF token conjI[OF mtls every]]])
qed

text \<open>
  C6.  With a \<open>caFile\<close>, a client certificate file and a client key file,
  \<open>GetGRPCClientConn\<close> reads through \<open>os.ReadFile\<close> nothing but the CA file (the
  token file is not read, even when it is set), no dial carries a per-call credential,
  and every dial carries the loaded certificate and key pair as the only certificate of
  its TLS configuration.  When the system pool, the CA file and the key pair load, the
  calls are exactly: system pool, CA file, key pair, dial.
\<close>

theorem GetGRPCClientConn_mtls:
  assumes "CAFile opt \<noteq> []" and "ClientCertFile opt \<noteq> []" and "ClientKeyFile opt \<noteq> []"
  shows
    "filter is_CallReadFile (fst (GetGRPCClientConn s opt)) \<in> {[], [CallReadFile (CAFile opt)]} \<and>
     (\<forall>url dialOpts. CallDial url dialOpts \<in> set (fst (GetGRPCClientConn s opt)) \<longrightarrow>
        (\<forall>token. WithPerRPCCredentials token \<notin> set dialOpts) \<and>
        (\<exists>clientCerts tlsConfig.
           LoadX509KeyPair s (ClientCertFile opt) (ClientKeyFile opt) = Inr clientCerts \<and>
           Certificates tlsConfig = [clientCerts] \<and>
           dialOpts = keepaliveDialOpts opt @ [WithTransportCredentials (NewTLS tlsConfig)])) \<and>
     (\<forall>certPool caPEM clientCerts.
        SystemCertPool s = Inr certPool \<and> ReadFile s (CAFile opt) = Inr caPEM \<and>
        certsFromPEM s caPEM \<noteq> [] \<and>
        LoadX509KeyPair s (ClientCertFile opt) (ClientKeyFile opt) = Inr clientCerts \<longrightarrow>
        fst (GetGRPCClientConn s opt) =
          [CallSystemCertPool, CallReadFile (CAFile opt),
           CallLoadX509KeyPair (ClientCertFile opt) (ClientKeyFile opt),
           CallDial (URL opt)
             (keepaliveDialOpts opt @
              [WithTransportCredentials
                 (NewTLS \<lparr> RootCAs = certPool @ certsFromPEM s caPEM,
                           MinVersion = VersionTLS13, MaxVersion = VersionTLS13,
                           Certificates = [clientCerts] \<rparr>)])])"
  using assms
  by (auto simp: GetGRPCClientConn_def dial_conn_def io_call_def io_bind_def Let_def
        AppendCertsFromPEM_def keepaliveDialOpts_def split: sum.splits if_splits)

theorem GetGRPCClientConn_mtls_witness:
  "GetGRPCClientConn exampleSys
     (exampleOptions \<lparr> CAFile := ''ca.crt'', ClientCertFile := ''tls.crt'',
                       ClientKeyFile := ''tls.key'', TokenFile := ''token'' \<rparr>) =
     ([CallSystemCertPool, CallReadFile ''ca.crt'', CallLoadX509KeyPair ''tls.crt'' ''tls.key'',
       CallDial ''hub:8090''
         [WithTransportCredentials
            (NewTLS \<lparr> RootCAs = [''system-root'', ''hub-ca''], MinVersion = 0x0304,
                      MaxVersion = 0x0304, Certificates = [(''tls.crt'', ''tls.key'')] \<rparr>)]],
      Inr 1)"
proof -
  let ?opt = "exampleOptions \<lparr> CAFile := ''ca.crt'', ClientCertFile := ''tls.crt'',
                       ClientKeyFile := ''tls.key'', TokenFile := ''token'' \<rparr>"
  have "CAFile ?opt \<noteq> []" and "ClientCertFile ?opt \<noteq> []" and "ClientKeyFile ?opt \<noteq> []"
    by (simp_all add: exampleOptions_def)
  from GetGRPCClientConn_mtls[OF this, of exampleSys]
  have "fst (GetGRPCClientConn exampleSys ?opt) =
          [CallSystemCertPool, CallReadFile ''ca.crt'',
           CallLoadX509KeyPair ''tls.crt'' ''tls.key'',
           CallDial ''hub:8090''
             [WithTransportCredentials
                (NewTLS \<lparr> RootCAs = [''system-root'', ''hub-ca''], MinVersion = 0x0304,
                          MaxVersion = 0x0304, Certificates = [(''tls.crt'', ''tls.key'')] \<rparr>)]]"
    by (simp add: exampleOptions_def exampleSys_def keepaliveDialOpts_def VersionTLS13_def)
  moreover have "snd (GetGRPCClientConn exampleSys ?opt) = Inr 1"
    by (simp add: GetGRPCClientConn_def exampleOptions_def exampleSys_def dial_conn_def
          io_call_def io_bind_def AppendCertsFromPEM_def Let_def)
  ultimately show ?thesis
    by (simp add: prod_eq_iff)
qed

section \<open>The connection monitor\<close>

lemma monitor_loop_append:
  "monitor_loop (pre @ cs) log =
     (case monitor_loop pre log of Returned l \<Rightarrow> Returned l | Selecting l \<Rightarrow> monitor_loop cs l)"
  by (induction pre log rule: monitor_loop.induct) auto

lemma monitor_loop_prepend:
  "monitor_loop cs (l @ log) = prepend l (monitor_loop cs log)"
  by (induction cs log rule: monitor_loop.induct) auto

lemma monitor_loop_Selecting_no_handler:
  "monitor_loop cs log = Selecting l \<Longrightarrow> filter is_ErrorHandler l = filter is_ErrorHandler log"
  by (induction cs log rule: monitor_loop.induct) (auto split: if_splits)

text \<open>
  C1.  Take a monitor that has not returned after the cases \<open>pre\<close>, and a next poll that
  observes \<open>TransientFailure\<close>, or observes \<open>Idle\<close> right after a poll that observed
  \<open>Ready\<close> or \<open>Connecting\<close>.  Then the monitor polls, calls the error handler, stops
  the ticker, closes the connection and returns: whatever cases \<open>post\<close> would fire later,
  nothing more is done.  The handler was not called before, so it is called exactly once.
\<close>

theorem monitor_terminal_state:
  assumes "monitor_loop pre [] = Selecting log"
    and "connState = TransientFailure \<or>
         (connState = Idle \<and> pre \<noteq> [] \<and>
          (last pre = TickerC Ready \<or> last pre = TickerC Connecting))"
  shows "monitor_loop (pre @ TickerC connState # post) [] =
           Returned (log @ [ConnGetState connState,
                            ErrorHandler (''grpc connection is disconnected (state='' @
                                          State_String connState @ '')''),
                            TickerStop, ConnClose]) \<and>
         filter is_ErrorHandler log = []"
  using assms monitor_loop_Selecting_no_handler[of pre "[]" log]
  by (auto simp: monitor_loop_append)

text \<open>
  The state turns to \<open>TransientFailure\<close> on the second poll, and to \<open>Idle\<close> after
  \<open>Ready\<close>; later ticks and a cancellation follow.
\<close>

theorem monitor_terminal_state_witness:
  "monitor_loop ([TickerC Connecting] @ TickerC TransientFailure # [TickerC Idle, CtxDone]) [] =
     Returned [ConnGetState Connecting, ConnGetState TransientFailure,
               ErrorHandler ''grpc connection is disconnected (state=TRANSIENT_FAILURE)'',
               TickerStop, ConnClose] \<and>
   monitor_loop ([TickerC Connecting, TickerC Ready] @ TickerC Idle #
                 [TickerC TransientFailure, CtxDone]) [] =
     Returned [ConnGetState Connecting, ConnGetState Ready, ConnGetState Idle,
               ErrorHandler ''grpc connection is disconnected (state=IDLE)'',
               TickerStop, ConnClose]"
  using
    monitor_terminal_state[of "[TickerC Connecting]" "[ConnGetState Connecting]"
      TransientFailure "[TickerC Idle, CtxDone]"]
    monitor_terminal_state[of "[TickerC Connecting, TickerC Ready]"
      "[ConnGetState Connecting, ConnGetState Ready]" Idle "[TickerC TransientFailure, CtxDone]"]
  by simp

text \<open>
  C10.  The loop carries nothing from one iteration to the next: once the cases \<open>pre\<close>
  have left the monitor in its \<open>select\<close>, what it does on the cases \<open>cs\<close> is what a
  fresh monitor does on \<open>cs\<close>.  So a poll that observes \<open>Idle\<close> or
  \<open>TransientFailure\<close> calls the handler, closes the connection and returns, when it is
  the first poll of a fresh connection (second part) as after any earlier cases (third
  part), whatever states were observed before.
\<close>

theorem monitor_memoryless:
  "(monitor_loop pre [] = Selecting log \<longrightarrow>
      monitor_loop (pre @ cs) [] = prepend log (monitor_loop cs [])) \<and>
   (connState = Idle \<or> connState = TransientFailure \<longrightarrow>
      monitor_loop (TickerC connState # cs) [] =
        Returned [ConnGetState connState,
                  ErrorHandler (''grpc connection is disconnected (state='' @
                                State_String connState @ '')''),
                  TickerStop, ConnClose]) \<and>
   (monitor_loop pre [] = Selecting log \<and>
    (connState = Idle \<or> connState = TransientFailure) \<longrightarrow>
      monitor_loop (pre @ TickerC connState # cs) [] =
        Returned (log @ [ConnGetState connState,
                         ErrorHandler (''grpc connection is disconnected (state='' @
                                       State_String connState @ '')''),
                         TickerStop, ConnClose]))"
  using monitor_loop_prepend[of cs log "[]"]
  by (auto simp: monitor_loop_append)

theorem monitor_memoryless_witness:
  "monitor_loop ([TickerC Connecting, TickerC Ready] @ [TickerC Ready, TickerC Idle]) [] =
     prepend [ConnGetState Connecting, ConnGetState Ready]
       (monitor_loop [TickerC Ready, TickerC Idle] []) \<and>
   monitor_loop (TickerC Idle # [TickerC Ready]) [] =
     Returned [ConnGetState Idle,
               ErrorHandler ''grpc connection is disconnected (state=IDLE)'',
               TickerStop, ConnClose] \<and>
   monitor_loop ([TickerC Shutdown] @ TickerC Idle # [TickerC Ready]) [] =
     Returned [ConnGetState Shutdown, ConnGetState Idle,
               ErrorHandler ''grpc connection is disconnected (state=IDLE)'',
               TickerStop, ConnClose]"
  using
    monitor_memoryless[of "[TickerC Connecting, TickerC Ready]"
      "[ConnGetState Connecting, ConnGetState Ready]" "[TickerC Ready, TickerC Idle]" Idle]
    monitor_memoryless[of "[]" "[]" "[TickerC Ready]" Idle]
    monitor_memoryless[of "[TickerC Shutdown]" "[ConnGetState Shutdown]" "[TickerC Ready]" Idle]
  by simp

text \<open>
  C4.  The cancellation branch stops the ticker and closes the connection, and does not
  call the handler; but it has no \<open>return\<close>.  After a cancellation the loop is back in
  its \<open>select\<close>: it takes the cancellation case again and again, closing the connection
  each time, and a tick that was already due is still polled.
\<close>

theorem monitor_cancel_keeps_looping:
  "monitor_loop [CtxDone, TickerC Shutdown, CtxDone] [] =
     Selecting [TickerStop, ConnClose, ConnGetState Shutdown, TickerStop, ConnClose]"
  by simp

lemma monitor_loop_cancel_only:
  "monitor_loop (replicate n CtxDone) log =
     Selecting (log @ concat (replicate n [TickerStop, ConnClose]))"
  by (induction n arbitrary: log) auto

section \<open>The codec\<close>

text \<open>
  C2.  \<open>Decode\<close> reports its failures in this order of priority: type string that does
  not parse; unsupported data type; missing \<open>resourceid\<close>; missing
  \<open>resourceversion\<close>; missing \<open>clustername\<close>; payload that does not deserialise.  Each
  reason has its own error, and a failure is reported whatever the later conditions are.
\<close>

theorem Decode_failure_priority:
  "(parseType (env_type e) = None \<longrightarrow>
      Decode parseType isTimestamp deserialize e = Inl BadEventType) \<and>
   (\<forall>t. parseType (env_type e) = Some t \<longrightarrow>
      (CloudEventsDataType t \<noteq> ManifestBundleEventDataType \<longrightarrow>
         Decode parseType isTimestamp deserialize e = Inl DecodeUnsupportedDataType) \<and>
      (CloudEventsDataType t = ManifestBundleEventDataType \<longrightarrow>
         (env_attributes e ''resourceid'' = None \<longrightarrow>
            Decode parseType isTimestamp deserialize e = Inl NoResourceID) \<and>
         (env_attributes e ''resourceid'' \<noteq> None \<longrightarrow>
            (env_attributes e ''resourceversion'' = None \<longrightarrow>
               Decode parseType isTimestamp deserialize e = Inl NoResourceVersion) \<and>
            (env_attributes e ''resourceversion'' \<noteq> None \<longrightarrow>
               (env_attributes e ''clustername'' = None \<longrightarrow>
                  Decode parseType isTimestamp deserialize e = Inl NoClusterName) \<and>
               (env_attributes e ''clustername'' \<noteq> None \<longrightarrow>
                  (deserialize (env_data e) = None \<longrightarrow>
                     Decode parseType isTimestamp deserialize e = Inl BadPayload) \<and>
                  (deserialize (env_data e) \<noteq> None \<longrightarrow>
                     (\<exists>r. Decode parseType isTimestamp deserialize e = Inr r))))))) \<and>
   distinct [BadEventType, DecodeUnsupportedDataType, NoResourceID, NoResourceVersion,
             NoClusterName, BadPayload]"
  by (auto simp: Decode_def split: option.splits)

text \<open>
  The failing envelopes of the codec test, in its order; none of them has a payload that
  deserialises, and each but the last fails later checks as well.
\<close>

theorem Decode_failure_priority_witness:
  "Decode exampleParseType (\<lambda>ts. True) exampleDeserialize
     (exampleEnvelope ''test'' []) = Inl BadEventType \<and>
   Decode exampleParseType (\<lambda>ts. True) exampleDeserialize
     (exampleEnvelope ''test-group.v1.test.spec.test'' []) = Inl DecodeUnsupportedDataType \<and>
   Decode exampleParseType (\<lambda>ts. True) exampleDeserialize
     (exampleEnvelope ''io.open-cluster-management.works.v1alpha1.manifestbundles.spec.test''
        []) = Inl NoResourceID \<and>
   Decode exampleParseType (\<lambda>ts. True) exampleDeserialize
     (exampleEnvelope ''io.open-cluster-management.works.v1alpha1.manifestbundles.spec.test''
        [(''resourceid'', ''test'')]) = Inl NoResourceVersion \<and>
   Decode exampleParseType (\<lambda>ts. True) exampleDeserialize
     (exampleEnvelope ''io.open-cluster-management.works.v1alpha1.manifestbundles.spec.test''
        [(''resourceid'', ''test''), (''resourceversion'', ''13'')]) = Inl NoClusterName \<and>
   Decode exampleParseType (\<lambda>ts. True) exampleDeserialize
     (exampleEnvelope ''io.open-cluster-management.works.v1alpha1.manifestbundles.spec.test''
        [(''resourceid'', ''test''), (''resourceversion'', ''13''),
         (''clustername'', ''cluster1'')]) = Inl BadPayload"
  using
    Decode_failure_priority[of exampleParseType "exampleEnvelope ''test'' []"
      "\<lambda>ts. True" exampleDeserialize]
    Decode_failure_priority[of exampleParseType
      "exampleEnvelope ''test-group.v1.test.spec.test'' []" "\<lambda>ts. True" exampleDeserialize]
    Decode_failure_priority[of exampleParseType
      "exampleEnvelope ''io.open-cluster-management.works.v1alpha1.manifestbundles.spec.test'' []"
      "\<lambda>ts. True" exampleDeserialize]
    Decode_failure_priority[of exampleParseType
      "exampleEnvelope ''io.open-cluster-management.works.v1alpha1.manifestbundles.spec.test''
         [(''resourceid'', ''test'')]" "\<lambda>ts. True" exampleDeserialize]
    Decode_failure_priority[of exampleParseType
      "exampleEnvelope ''io.open-cluster-management.works.v1alpha1.manifestbundles.spec.test''
         [(''resourceid'', ''test''), (''resourceversion'', ''13'')]"
      "\<lambda>ts. True" exampleDeserialize]
    Decode_failure_priority[of exampleParseType
      "exampleEnvelope ''io.open-cluster-management.works.v1alpha1.manifestbundles.spec.test''
         [(''resourceid'', ''test''), (''resourceversion'', ''13''),
          (''clustername'', ''cluster1'')]" "\<lambda>ts. True" exampleDeserialize]
  by (simp add: exampleParseType_def exampleEnvelope_def exampleDeserialize_def
        ManifestBundleEventDataType_def)

text \<open>
  C9.  For a status event of the codec's data type and a resource whose version
  identifier is a non-empty string of digits: \<open>Encode\<close> fails, for want of the original
  source, when the resource has no original-source label, and succeeds on the same
  resource once the label is set (and on any such resource that has the label).
\<close>

theorem Encode_status_original_source:
  assumes "CloudEventsDataType eventType = ManifestBundleEventDataType"
    and "SubResource eventType = SubResourceStatus"
    and "res_Version resource \<noteq> []" and "list_all is_digit (res_Version resource)"
  shows "(res_Labels resource OriginalSourceLabelKey = None \<longrightarrow>
           Encode newID sourceID eventType resource = Inl NoOriginalSource) \<and>
         (\<forall>src. \<exists>envelope.
            Encode newID sourceID eventType
              (resource \<lparr> res_Labels := (res_Labels resource)(OriginalSourceLabelKey \<mapsto> src) \<rparr>) =
              Inr envelope) \<and>
         (res_Labels resource OriginalSourceLabelKey \<noteq> None \<longrightarrow>
            (\<exists>envelope. Encode newID sourceID eventType resource = Inr envelope))"
  using assms
  by (auto simp: Encode_def parseNonNegativeInteger_def Let_def)

theorem Encode_status_original_source_witness:
  "Encode ''id-1'' ''cluster1-work-agent'' exampleStatusType exampleResource =
     Inl NoOriginalSource \<and>
   (\<exists>envelope.
      Encode ''id-1'' ''cluster1-work-agent'' exampleStatusType
        (exampleResource \<lparr> res_Labels :=
           (res_Labels exampleResource)(OriginalSourceLabelKey \<mapsto> ''source1'') \<rparr>) =
      Inr envelope)"
proof -
  have "CloudEventsDataType exampleStatusType = ManifestBundleEventDataType"
    and "SubResource exampleStatusType = SubResourceStatus"
    and "res_Version exampleResource \<noteq> []"
    and "list_all is_digit (res_Version exampleResource)"
    by (simp_all add: exampleStatusType_def exampleResource_def is_digit_def)
  from Encode_status_original_source[OF this, of "''id-1''" "''cluster1-work-agent''"]
  show ?thesis
    by (simp add: exampleResource_def)
qed

end
